theory Spec2Isabelle
  imports Main "HOL-Library.Sublist"
begin

section \<open>JavaScript values and string primitives\<close>

text \<open>
  The scraped records are read with \<^verbatim>\<open>JSON.parse\<close>, so a text field such as
  \<^verbatim>\<open>location\<close> or \<^verbatim>\<open>country\<close> holds \<^verbatim>\<open>null\<close>, is missing
  (\<^verbatim>\<open>undefined\<close>) or holds a string. Strings are byte strings; case mapping and
  white space cover the ASCII range, every other byte is left alone.
\<close>

datatype jsval = JNull | JUndefined | JStr string

text \<open>A value placed in a template literal \<^verbatim>\<open>`${v}`\<close>.\<close>

fun template :: "jsval \<Rightarrow> string" where
  "template JNull = ''null''"
| "template JUndefined = ''undefined''"
| "template (JStr s) = s"

text \<open>JavaScript truthiness of such a value: only a non-empty string is truthy.\<close>

fun truthy :: "jsval \<Rightarrow> bool" where
  "truthy (JStr s) = (s \<noteq> [])"
| "truthy _ = False"

definition lowerChar :: "char \<Rightarrow> char" where
  "lowerChar c =
     (case map_of (zip ''ABCDEFGHIJKLMNOPQRSTUVWXYZ'' ''abcdefghijklmnopqrstuvwxyz'') c of
        Some d \<Rightarrow> d
      | None \<Rightarrow> c)"

definition toLowerCase :: "string \<Rightarrow> string" where
  "toLowerCase s = map lowerChar s"

definition isWhitespace :: "char \<Rightarrow> bool" where
  "isWhitespace c = (c \<in> set [CHR 0x09, CHR 0x0A, CHR 0x0B, CHR 0x0C, CHR 0x0D, CHR 0x20])"

definition trim :: "string \<Rightarrow> string" where
  "trim s = rev (dropWhile isWhitespace (rev (dropWhile isWhitespace s)))"

text \<open>\<^verbatim>\<open>s.includes(t)\<close>: \<open>t\<close> occurs in \<open>s\<close> at some position.\<close>

fun includesStr :: "string \<Rightarrow> string \<Rightarrow> bool" where
  "includesStr [] t = (t = [])"
| "includesStr (c # cs) t = (prefix t (c # cs) \<or> includesStr cs t)"

text \<open>\<^verbatim>\<open>s.replace(t, '')\<close> with a string pattern: the first occurrence of \<open>t\<close> is removed.\<close>

fun removeFirst :: "string \<Rightarrow> string \<Rightarrow> string" where
  "removeFirst [] t = []"
| "removeFirst (c # cs) t =
     (if prefix t (c # cs) then drop (length t) (c # cs) else c # removeFirst cs t)"

text \<open>
  \<^verbatim>\<open>s.replace(/Greater\s+/i, '')\<close>: the leftmost place where the letters of
  ``greater'' (in any case) are followed by white space is removed together with the
  whole run of white space after it.
\<close>

fun removeGreater :: "string \<Rightarrow> string" where
  "removeGreater [] = []"
| "removeGreater (c # cs) =
     (if prefix ''greater'' (toLowerCase (c # cs)) \<and>
         (case drop 7 (c # cs) of [] \<Rightarrow> False | d # _ \<Rightarrow> isWhitespace d)
      then dropWhile isWhitespace (drop 7 (c # cs))
      else c # removeGreater cs)"

text \<open>
  \<^verbatim>\<open>s.replace(/\s+Area/i, '')\<close>: the leftmost run of white space that is followed by the
  letters of ``area'' (in any case) is removed together with those letters.
\<close>

fun removeArea :: "string \<Rightarrow> string" where
  "removeArea [] = []"
| "removeArea (c # cs) =
     (if isWhitespace c \<and> prefix ''area'' (toLowerCase (dropWhile isWhitespace cs))
      then drop 4 (dropWhile isWhitespace cs)
      else c # removeArea cs)"

text \<open>\<^verbatim>\<open>s.split(',')[0]\<close>: the text before the first comma.\<close>

definition beforeComma :: "string \<Rightarrow> string" where
  "beforeComma s = takeWhile (\<lambda>c. c \<noteq> CHR '','') s"

section \<open>Location Extractor: the problematic classifier\<close>

definition problematicKeywords :: "string list" where
  "problematicKeywords =
     [''world'', ''earth'', ''remote'', ''nomad'', ''digital nomad'', ''everywhere'',
      ''nowhere'', ''n/a'', ''tbd'', ''various'']"

fun isPotentiallyProblematic :: "jsval \<Rightarrow> bool" where
  "isPotentiallyProblematic (JStr location) =
     (if location = [] \<or> location = ''null'' then True
      else list_ex (\<lambda>keyword. includesStr (toLowerCase location) keyword) problematicKeywords)"
| "isPotentiallyProblematic _ = True"

section \<open>Location Normalizer\<close>

datatype error = TypeError

text \<open>
  The object literal \<^verbatim>\<open>countryNames\<close>. A lookup \<^verbatim>\<open>countryNames[country]\<close> finds one
  of the ten own entries, or a member inherited from \<^verbatim>\<open>Object.prototype\<close> (which is
  truthy and has no \<^verbatim>\<open>toLowerCase\<close>), or nothing.
\<close>

definition countryNames :: "(string \<times> string) list" where
  "countryNames =
     [(''PL'', ''Poland''), (''GB'', ''United Kingdom''), (''US'', ''United States''),
      (''CA'', ''Canada''), (''DE'', ''Germany''), (''FR'', ''France''), (''ES'', ''Spain''),
      (''IT'', ''Italy''), (''NL'', ''Netherlands''), (''BE'', ''Belgium'')]"

definition objectPrototypeMembers :: "string list" where
  "objectPrototypeMembers =
     [''constructor'', ''__defineGetter__'', ''__defineSetter__'', ''hasOwnProperty'',
      ''__lookupGetter__'', ''__lookupSetter__'', ''isPrototypeOf'',
      ''propertyIsEnumerable'', ''toString'', ''valueOf'', ''__proto__'',
      ''toLocaleString'']"

text \<open>The rule for the redundant ``, UK'' when the country is already GB.\<close>

definition stripUk :: "jsval \<Rightarrow> string \<Rightarrow> string" where
  "stripUk country normalized =
     (if country = JStr ''GB'' \<and> includesStr normalized '', UK''
      then removeFirst normalized '', UK'' else normalized)"

text \<open>The rule for ``Greater [City] Area''.\<close>

definition stripGreaterArea :: "string \<Rightarrow> string" where
  "stripGreaterArea normalized =
     (if includesStr normalized ''Greater'' \<and> includesStr normalized ''Area''
      then removeArea (removeGreater normalized) else normalized)"

text \<open>The rule for a redundant country name when the country code is known.\<close>

definition stripCountryName :: "jsval \<Rightarrow> string \<Rightarrow> error + string" where
  "stripCountryName country normalized =
     (if truthy country \<and> includesStr normalized '',''
      then (case map_of countryNames (template country) of
              Some countryName \<Rightarrow>
                Inr (if includesStr (toLowerCase normalized) (toLowerCase countryName)
                     then trim (beforeComma normalized) else normalized)
            | None \<Rightarrow>
                if template country \<in> set objectPrototypeMembers then Inl TypeError
                else Inr normalized)
      else Inr normalized)"

fun normalizeLocation :: "jsval \<Rightarrow> jsval \<Rightarrow> error + string" where
  "normalizeLocation (JStr location) country =
     (if location = [] \<or> location = ''null'' \<or> toLowerCase location = ''world''
      then Inr ''North Pole''
      else stripCountryName country (stripGreaterArea (stripUk country (trim location))))"
| "normalizeLocation _ country = Inr ''North Pole''"

text \<open>The query sent to the forward geocoder for a location entry.\<close>

definition searchQuery :: "string \<Rightarrow> jsval \<Rightarrow> string" where
  "searchQuery normalizedLocation country =
     (if truthy country \<and> country \<noteq> JStr ''world''
      then normalizedLocation @ '', '' @ template country
      else normalizedLocation)"

section \<open>Records of the pipeline\<close>

text \<open>
  Numbers (latitude, longitude) are only ever copied by the pipeline, so their type is a
  parameter \<open>'n\<close>.
\<close>

record rawTeam =
  t_id :: int
  t_attributes :: "(jsval \<times> jsval) option"

record member =
  squeakId :: int
  firstName :: jsval
  lastName :: jsval
  companyRole :: jsval
  location :: jsval
  country :: jsval
  avatarUrl :: jsval
  biography :: jsval
  color :: jsval
  pronouns :: jsval
  pineappleOnPizza :: jsval
  startDate :: jsval
  teams :: "rawTeam list option"
  leadTeams :: "rawTeam list option"

text \<open>The value stored in the extractor's \<^verbatim>\<open>locationMap\<close>, and the entry with its key.\<close>

record locData =
  l_location :: jsval
  l_country :: jsval
  l_count :: nat
  l_members :: "string list"

record locEntry = locData +
  l_key :: string

text \<open>One element of the geocoding provider's answer (forward or reverse).\<close>

record 'n hit =
  h_latitude :: 'n
  h_longitude :: 'n
  h_formattedAddress :: jsval
  h_city :: jsval
  h_country :: jsval
  h_countryCode :: jsval

text \<open>A request to the provider throws (with a message) or returns a list.\<close>

datatype 'n response = Throws string | Results "'n hit list"

record 'n geocoded =
  g_lat :: 'n
  g_lng :: 'n
  g_formattedAddress :: jsval
  g_city :: jsval
  g_country :: jsval
  g_countryCode :: jsval

record 'n geoResult = locEntry +
  r_geocoded :: "'n geocoded option"
  r_success :: bool
  r_error :: "string option"

record 'n mismatch =
  v_original :: jsval
  v_originalCountry :: jsval
  v_coordinates :: "'n \<times> 'n"
  v_reverseGeocodedTo :: jsval
  v_membersAffected :: nat

section \<open>An insertion-ordered Map\<close>

text \<open>
  A JavaScript \<^verbatim>\<open>Map\<close> keeps its keys in insertion order; \<^verbatim>\<open>set\<close> on a present key
  replaces the value in place, on a new key it appends.
\<close>

definition mapHas :: "('k \<times> 'v) list \<Rightarrow> 'k \<Rightarrow> bool" where
  "mapHas m k = (map_of m k \<noteq> None)"

fun mapSet :: "'k \<Rightarrow> 'v \<Rightarrow> ('k \<times> 'v) list \<Rightarrow> ('k \<times> 'v) list" where
  "mapSet k v [] = [(k, v)]"
| "mapSet k v (p # ps) = (if fst p = k then (k, v) # ps else p # mapSet k v ps)"

text \<open>Mutating the object stored under a key.\<close>

definition mapModify :: "'k \<Rightarrow> ('v \<Rightarrow> 'v) \<Rightarrow> ('k \<times> 'v) list \<Rightarrow> ('k \<times> 'v) list" where
  "mapModify k f m = map (\<lambda>p. if fst p = k then (fst p, f (snd p)) else p) m"

section \<open>Location Extractor: the deduplicated location set\<close>

definition locationKey :: "jsval \<Rightarrow> jsval \<Rightarrow> string" where
  "locationKey loc ctry = template loc @ ''|'' @ template ctry"

definition fullName :: "member \<Rightarrow> string" where
  "fullName m = template (firstName m) @ '' '' @ template (lastName m)"

definition addMember :: "(string \<times> locData) list \<Rightarrow> member \<Rightarrow> (string \<times> locData) list" where
  "addMember locationMap m =
     (let key = locationKey (location m) (country m);
          locationMap' =
            (if \<not> mapHas locationMap key
             then mapSet key \<lparr>l_location = location m, l_country = country m,
                               l_count = 0, l_members = []\<rparr> locationMap
             else locationMap)
      in mapModify key
           (\<lambda>locData. locData\<lparr>l_count := l_count locData + 1,
                               l_members := l_members locData @ [fullName m]\<rparr>)
           locationMap')"

definition collectLocations :: "member list \<Rightarrow> (string \<times> locData) list" where
  "collectLocations teamMembers = foldl addMember [] teamMembers"

definition withKey :: "string \<times> locData \<Rightarrow> locEntry" where
  "withKey p =
     \<lparr>l_location = l_location (snd p), l_country = l_country (snd p),
      l_count = l_count (snd p), l_members = l_members (snd p), l_key = fst p\<rparr>"

definition problematic :: "(string \<times> locData) list \<Rightarrow> locEntry list" where
  "problematic locationMap =
     map withKey (filter (\<lambda>p. isPotentiallyProblematic (l_location (snd p))) locationMap)"

definition normal :: "(string \<times> locData) list \<Rightarrow> locEntry list" where
  "normal locationMap =
     map withKey (filter (\<lambda>p. \<not> isPotentiallyProblematic (l_location (snd p))) locationMap)"

definition allLocations :: "(string \<times> locData) list \<Rightarrow> locEntry list" where
  "allLocations locationMap = problematic locationMap @ normal locationMap"

section \<open>Geocoder: one forward request per location entry\<close>

text \<open>
  The provider is external: \<open>geocode i q\<close> is its answer to the query \<open>q\<close> made in
  iteration \<open>i\<close> of the loop. The state carries the \<^verbatim>\<open>geocodeResults\<close> map and the
  two counters of the source, and the trace of the requests made (entry key and query).
\<close>

record 'n gstate =
  geocodeResults :: "(string \<times> 'n geoResult) list"
  successCount :: nat
  failCount :: nat
  requests :: "(string \<times> string) list"

definition succeeded :: "locEntry \<Rightarrow> 'n hit \<Rightarrow> 'n geoResult" where
  "succeeded loc result =
     \<lparr>l_location = l_location loc, l_country = l_country loc, l_count = l_count loc,
      l_members = l_members loc, l_key = l_key loc,
      r_geocoded = Some \<lparr>g_lat = h_latitude result, g_lng = h_longitude result,
                          g_formattedAddress = h_formattedAddress result,
                          g_city = h_city result, g_country = h_country result,
                          g_countryCode = h_countryCode result\<rparr>,
      r_success = True, r_error = None\<rparr>"

definition failed :: "locEntry \<Rightarrow> string \<Rightarrow> 'n geoResult" where
  "failed loc msg =
     \<lparr>l_location = l_location loc, l_country = l_country loc, l_count = l_count loc,
      l_members = l_members loc, l_key = l_key loc,
      r_geocoded = None, r_success = False, r_error = Some msg\<rparr>"

text \<open>
  The effect of one answer on the state. An empty list and a thrown request error both
  record a failed result.
\<close>

definition recordAnswer :: "locEntry \<Rightarrow> 'n response \<Rightarrow> 'n gstate \<Rightarrow> 'n gstate" where
  "recordAnswer loc answer st =
     (case answer of
        Results (result # _) \<Rightarrow>
          st\<lparr>geocodeResults := mapSet (l_key loc) (succeeded loc result) (geocodeResults st),
             successCount := successCount st + 1\<rparr>
      | Results [] \<Rightarrow>
          st\<lparr>geocodeResults :=
               mapSet (l_key loc) (failed loc ''No results found'') (geocodeResults st),
             failCount := failCount st + 1\<rparr>
      | Throws msg \<Rightarrow>
          st\<lparr>geocodeResults := mapSet (l_key loc) (failed loc msg) (geocodeResults st),
             failCount := failCount st + 1\<rparr>)"

text \<open>
  The loop over \<^verbatim>\<open>allLocations\<close>. \<^verbatim>\<open>normalizeLocation\<close> is called outside the inner
  \<^verbatim>\<open>try\<close>, so its error leaves the loop and the run.
\<close>

fun geocodeLoop ::
  "(nat \<Rightarrow> string \<Rightarrow> 'n response) \<Rightarrow> nat \<Rightarrow> locEntry list \<Rightarrow> 'n gstate \<Rightarrow> error + 'n gstate" where
  "geocodeLoop geocode i [] st = Inr st"
| "geocodeLoop geocode i (loc # locs) st =
     (case normalizeLocation (l_location loc) (l_country loc) of
        Inl e \<Rightarrow> Inl e
      | Inr normalizedLocation \<Rightarrow>
          (let query = searchQuery normalizedLocation (l_country loc);
               st' = st\<lparr>requests := requests st @ [(l_key loc, query)]\<rparr>
           in geocodeLoop geocode (i + 1) locs (recordAnswer loc (geocode i query) st')))"

section \<open>Verifier: reverse geocoding of a sample\<close>

record 'n vstate =
  mismatches :: "'n mismatch list"
  reverseRequests :: "('n \<times> 'n) list"

definition verificationsNeeded :: "(string \<times> 'n geoResult) list \<Rightarrow> 'n geoResult list" where
  "verificationsNeeded results = take 10 (filter r_success (map snd results))"

text \<open>
  The containment check, on the two lower-cased strings and the city of the reverse
  result: \<^verbatim>\<open>reverse.city?.toLowerCase() || ''\<close> is the empty string for a missing city.
\<close>

definition reverseMatches :: "string \<Rightarrow> string \<Rightarrow> jsval \<Rightarrow> bool" where
  "reverseMatches originalLower reverseLower city =
     (includesStr reverseLower originalLower \<or>
      includesStr originalLower (case city of JStr c \<Rightarrow> toLowerCase c | _ \<Rightarrow> []))"

text \<open>
  The body of the verification loop for one entry and the provider's answer. Calling
  \<^verbatim>\<open>toLowerCase\<close> on a location or address that is not a string throws inside the
  \<^verbatim>\<open>try\<close>; the \<^verbatim>\<open>catch\<close> ignores it.
\<close>

definition checkReverse :: "'n geoResult \<Rightarrow> 'n geocoded \<Rightarrow> 'n response \<Rightarrow> 'n mismatch list" where
  "checkReverse loc g answer =
     (case answer of
        Throws msg \<Rightarrow> []
      | Results [] \<Rightarrow> []
      | Results (reverse # _) \<Rightarrow>
          (case l_location loc of
             JStr original \<Rightarrow>
               (case h_formattedAddress reverse of
                  JStr address \<Rightarrow>
                    if reverseMatches (toLowerCase original) (toLowerCase address) (h_city reverse)
                    then []
                    else [\<lparr>v_original = l_location loc, v_originalCountry = l_country loc,
                           v_coordinates = (g_lat g, g_lng g),
                           v_reverseGeocodedTo = h_formattedAddress reverse,
                           v_membersAffected = l_count loc\<rparr>]
                | _ \<Rightarrow> [])
           | _ \<Rightarrow> []))"

fun verifyLoop ::
  "(nat \<Rightarrow> 'n \<Rightarrow> 'n \<Rightarrow> 'n response) \<Rightarrow> nat \<Rightarrow> 'n geoResult list \<Rightarrow> 'n vstate \<Rightarrow> 'n vstate" where
  "verifyLoop reverse i [] st = st"
| "verifyLoop reverse i (loc # locs) st =
     verifyLoop reverse (i + 1) locs
       (case r_geocoded loc of
          None \<Rightarrow> st
        | Some g \<Rightarrow>
            st\<lparr>mismatches := mismatches st @ checkReverse loc g (reverse i (g_lat g) (g_lng g)),
               reverseRequests := reverseRequests st @ [(g_lat g, g_lng g)]\<rparr>)"

section \<open>The geocoding stage and its persisted output\<close>

text \<open>
  What a completed run leaves behind: the summary counts, the three report lists and all
  results, as written to \<^verbatim>\<open>geocode_results.json\<close>, and the two traces of the requests
  sent to the provider. The merge stage reads \<open>o_allResults\<close> back from that file as it
  was written. The two report lists built from entries hold the whole entry here; the
  file keeps their location, country, count and members (and the error of a failure).
  A type error raised by \<^verbatim>\<open>normalizeLocation\<close> is caught by the outer \<^verbatim>\<open>try\<close>: the run
  ends and nothing is written.
\<close>

record 'n geocodeOutput =
  o_total :: nat
  o_successful :: nat
  o_failed :: nat
  o_problematic :: nat
  o_problematicLocations :: "locEntry list"
  o_failedGeocode :: "'n geoResult list"
  o_verificationMismatches :: "'n mismatch list"
  o_allResults :: "'n geoResult list"
  o_requests :: "(string \<times> string) list"
  o_reverseRequests :: "('n \<times> 'n) list"

definition geocodeTeamData ::
  "(nat \<Rightarrow> string \<Rightarrow> 'n response) \<Rightarrow> (nat \<Rightarrow> 'n \<Rightarrow> 'n \<Rightarrow> 'n response) \<Rightarrow> member list
     \<Rightarrow> error + 'n geocodeOutput" where
  "geocodeTeamData geocode reverse teamMembers =
     (let locationMap = collectLocations teamMembers in
      case geocodeLoop geocode 0 (allLocations locationMap)
             \<lparr>geocodeResults = [], successCount = 0, failCount = 0, requests = []\<rparr> of
        Inl e \<Rightarrow> Inl e
      | Inr st \<Rightarrow>
          (let vst = verifyLoop reverse 0 (verificationsNeeded (geocodeResults st))
                       \<lparr>mismatches = [], reverseRequests = []\<rparr>
           in Inr \<lparr>o_total = length (allLocations locationMap),
                   o_successful = successCount st,
                   o_failed = failCount st,
                   o_problematic = length (problematic locationMap),
                   o_problematicLocations = problematic locationMap,
                   o_failedGeocode = filter (\<lambda>r. \<not> r_success r) (map snd (geocodeResults st)),
                   o_verificationMismatches = mismatches vst,
                   o_allResults = map snd (geocodeResults st),
                   o_requests = requests st,
                   o_reverseRequests = reverseRequests vst\<rparr>))"

section \<open>Record Merger\<close>

record 'n coords =
  c_latitude :: 'n
  c_longitude :: 'n
  c_formattedAddress :: jsval

record 'n enriched =
  e_id :: int
  e_name :: string
  e_firstName :: jsval
  e_lastName :: jsval
  e_role :: jsval
  e_location :: jsval
  e_country :: jsval
  e_latitude :: 'n
  e_longitude :: 'n
  e_formattedAddress :: jsval
  e_avatar :: jsval
  e_biography :: jsval
  e_color :: jsval
  e_pronouns :: jsval
  e_pineappleOnPizza :: jsval
  e_startDate :: jsval
  e_teams :: "(int \<times> jsval \<times> jsval) list"
  e_leadTeams :: "jsval list"

text \<open>The lookup map: only results with a true success flag and a geocoded part enter.\<close>

definition coordsOf :: "'n geocoded \<Rightarrow> 'n coords" where
  "coordsOf g =
     \<lparr>c_latitude = g_lat g, c_longitude = g_lng g, c_formattedAddress = g_formattedAddress g\<rparr>"

definition addResult :: "(string \<times> 'n coords) list \<Rightarrow> 'n geoResult \<Rightarrow> (string \<times> 'n coords) list" where
  "addResult locationMap result =
     (case r_geocoded result of
        Some g \<Rightarrow>
          if r_success result
          then mapSet (locationKey (l_location result) (l_country result)) (coordsOf g) locationMap
          else locationMap
      | None \<Rightarrow> locationMap)"

definition buildLocationMap :: "'n geoResult list \<Rightarrow> (string \<times> 'n coords) list" where
  "buildLocationMap allResults = foldl addResult [] allResults"

definition attributeName :: "rawTeam \<Rightarrow> jsval" where
  "attributeName t = (case t_attributes t of Some a \<Rightarrow> fst a | None \<Rightarrow> JUndefined)"

definition attributeSlug :: "rawTeam \<Rightarrow> jsval" where
  "attributeSlug t = (case t_attributes t of Some a \<Rightarrow> snd a | None \<Rightarrow> JUndefined)"

definition enrich :: "member \<Rightarrow> 'n coords \<Rightarrow> 'n enriched" where
  "enrich m coords =
     \<lparr>e_id = squeakId m,
      e_name = fullName m,
      e_firstName = firstName m,
      e_lastName = lastName m,
      e_role = companyRole m,
      e_location = location m,
      e_country = country m,
      e_latitude = c_latitude coords,
      e_longitude = c_longitude coords,
      e_formattedAddress = c_formattedAddress coords,
      e_avatar = (if truthy (avatarUrl m) then avatarUrl m else JNull),
      e_biography = biography m,
      e_color = color m,
      e_pronouns = pronouns m,
      e_pineappleOnPizza = pineappleOnPizza m,
      e_startDate = startDate m,
      e_teams = (case teams m of
                   Some ts \<Rightarrow> map (\<lambda>t. (t_id t, attributeName t, attributeSlug t)) ts
                 | None \<Rightarrow> []),
      e_leadTeams = (case leadTeams m of Some ts \<Rightarrow> map attributeName ts | None \<Rightarrow> [])\<rparr>"

text \<open>The line written by \<^verbatim>\<open>console.warn\<close> for a skipped record.\<close>

definition warningLine :: "member \<Rightarrow> string" where
  "warningLine m =
     [CHR 0xE2, CHR 0x9A, CHR 0xA0, CHR 0xEF, CHR 0xB8, CHR 0x8F] @
     ''  No coordinates found for: '' @ template (firstName m) @ '' '' @
     template (lastName m) @ '' ('' @ template (location m) @ '', '' @
     template (country m) @ '')''"

text \<open>
  The callback of \<^verbatim>\<open>teamMembers.map\<close> with its effects: the mapped array (\<open>None\<close> is
  \<^verbatim>\<open>null\<close>), the two counters and the warnings written.
\<close>

record 'n mstate =
  mapped :: "'n enriched option list"
  processed :: nat
  skipped :: nat
  warnings :: "string list"

definition processMember :: "(string \<times> 'n coords) list \<Rightarrow> 'n mstate \<Rightarrow> member \<Rightarrow> 'n mstate" where
  "processMember locationMap st m =
     (case map_of locationMap (locationKey (location m) (country m)) of
        Some coords \<Rightarrow>
          st\<lparr>mapped := mapped st @ [Some (enrich m coords)], processed := processed st + 1\<rparr>
      | None \<Rightarrow>
          st\<lparr>mapped := mapped st @ [None], skipped := skipped st + 1,
             warnings := warnings st @ [warningLine m]\<rparr>)"

record 'n teamFile =
  f_totalMembers :: nat
  f_lastUpdated :: string
  f_source :: string
  f_dataVersion :: string
  f_team :: "'n enriched list"
  f_warnings :: "string list"

text \<open>
  The merge. \<open>now\<close> is the time stamp of the run; \<open>f_warnings\<close> is what the run wrote
  with \<^verbatim>\<open>console.warn\<close>, the other fields are the persisted dataset.
\<close>

definition processTeamData :: "string \<Rightarrow> member list \<Rightarrow> 'n geoResult list \<Rightarrow> 'n teamFile" where
  "processTeamData now teamMembers allResults =
     (let locationMap = buildLocationMap allResults;
          st = foldl (processMember locationMap)
                 \<lparr>mapped = [], processed = 0, skipped = 0, warnings = []\<rparr> teamMembers;
          processedMembers = List.map_filter (\<lambda>m. m) (mapped st)
      in \<lparr>f_totalMembers = length processedMembers,
          f_lastUpdated = now,
          f_source = ''posthog.com/people'',
          f_dataVersion = ''1.0'',
          f_team = processedMembers,
          f_warnings = warnings st\<rparr>)"

section \<open>Static Server: member by identifier\<close>




section \<open>Notions of the specification\<close>

text \<open>
  The successful GeocodeResults listed for a key: those with a true success flag and a
  geocoded part whose location and country render to that key.
\<close>

definition successfulFor :: "'n geoResult list \<Rightarrow> string \<Rightarrow> 'n geoResult list" where
  "successfulFor allResults key =
     filter (\<lambda>r. r_success r \<and> r_geocoded r \<noteq> None \<and>
                 locationKey (l_location r) (l_country r) = key) allResults"

text \<open>
  The classifier as the specification words it: the location is empty, null or the
  null-marker, or contains, in any case, one of the listed placeholders.
\<close>

definition claimedPlaceholders :: "string list" where
  "claimedPlaceholders =
     [''world'', ''earth'', ''remote'', ''nomad'', ''digital nomad'', ''everywhere'',
      ''nowhere'', ''not-applicable'', ''to-be-determined'', ''various'']"

fun claimedProblematic :: "jsval \<Rightarrow> bool" where
  "claimedProblematic (JStr s) =
     (s = [] \<or> s = ''null'' \<or>
      list_ex (\<lambda>placeholder. sublist placeholder (toLowerCase s)) claimedPlaceholders)"
| "claimedProblematic _ = True"


text \<open>
  An entry of the \<^verbatim>\<open>geocodeResults\<close> map is well keyed when it sits under its own key,
  that key is the rendering of its location and country, and it has a geocoded part
  exactly when it is marked successful.
\<close>

definition keyedResult :: "string \<times> 'n geoResult \<Rightarrow> bool" where
  "keyedResult p \<longleftrightarrow>
     fst p = l_key (snd p) \<and>
     l_key (snd p) = locationKey (l_location (snd p)) (l_country (snd p)) \<and>
     r_success (snd p) = (r_geocoded (snd p) \<noteq> None)"






section \<open>Sample data\<close>

text \<open>A scraped record with the given first name, location and country.\<close>

definition sampleMember :: "int \<Rightarrow> string \<Rightarrow> jsval \<Rightarrow> jsval \<Rightarrow> member" where
  "sampleMember i n loc ctry =
     \<lparr>squeakId = i, firstName = JStr n, lastName = JStr ''Doe'', companyRole = JNull,
      location = loc, country = ctry, avatarUrl = JUndefined, biography = JNull,
      color = JNull, pronouns = JNull, pineappleOnPizza = JNull, startDate = JNull,
      teams = None, leadTeams = None\<rparr>"


definition sampleGeocoded :: "int geocoded" where
  "sampleGeocoded =
     \<lparr>g_lat = 48, g_lng = 2, g_formattedAddress = JStr ''Paris, France'',
      g_city = JStr ''Paris'', g_country = JStr ''France'', g_countryCode = JStr ''FR''\<rparr>"

definition sampleResult :: "jsval \<Rightarrow> jsval \<Rightarrow> bool \<Rightarrow> int geoResult" where
  "sampleResult loc ctry ok =
     \<lparr>l_location = loc, l_country = ctry, l_count = 1, l_members = [],
      l_key = locationKey loc ctry,
      r_geocoded = (if ok then Some sampleGeocoded else None),
      r_success = ok,
      r_error = (if ok then None else Some ''No results found'')\<rparr>"

text \<open>A provider that answers every query with one place, and one that finds nothing.\<close>

definition sampleHit :: "int hit" where
  "sampleHit =
     \<lparr>h_latitude = 48, h_longitude = 2, h_formattedAddress = JStr ''Paris, France'',
      h_city = JStr ''Paris'', h_country = JStr ''France'', h_countryCode = JStr ''FR''\<rparr>"

definition sampleGeocode :: "nat \<Rightarrow> string \<Rightarrow> int response" where
  "sampleGeocode i query = Results [sampleHit]"

definition sampleFails :: "nat \<Rightarrow> string \<Rightarrow> int response" where
  "sampleFails i query = (if query = ''Atlantis, XX'' then Results [] else Results [sampleHit])"

definition sampleElsewhere :: "jsval \<Rightarrow> int hit" where
  "sampleElsewhere city =
     \<lparr>h_latitude = 35, h_longitude = 139, h_formattedAddress = JStr ''Tokyo, Japan'',
      h_city = city, h_country = JStr ''Japan'', h_countryCode = JStr ''JP''\<rparr>"


definition sampleReverseNoCity :: "nat \<Rightarrow> int \<Rightarrow> int \<Rightarrow> int response" where
  "sampleReverseNoCity i lat lng = Results [sampleElsewhere JUndefined]"

definition sampleReverse :: "nat \<Rightarrow> int \<Rightarrow> int \<Rightarrow> int response" where
  "sampleReverse i lat lng = Results []"


section \<open>Properties of the string primitives\<close>

lemma includesStr_iff: "includesStr s t \<longleftrightarrow> (\<exists>p q. s = p @ t @ q)"
proof (induction s)
  case Nil
  then show ?case by auto
next
  case (Cons c cs)
  show ?case
  proof
    assume "includesStr (c # cs) t"
    then consider "prefix t (c # cs)" | "includesStr cs t" by auto
    then show "\<exists>p q. c # cs = p @ t @ q"
    proof cases
      case 1
      then obtain q where "c # cs = t @ q" by (auto simp: prefix_def)
      then have "c # cs = [] @ t @ q" by simp
      then show ?thesis by blast
    next
      case 2
      with Cons.IH obtain p q where "cs = p @ t @ q" by blast
      then have "c # cs = (c # p) @ t @ q" by simp
      then show ?thesis by blast
    qed
  next
    assume "\<exists>p q. c # cs = p @ t @ q"
    then obtain p q where pq: "c # cs = p @ t @ q" by blast
    show "includesStr (c # cs) t"
    proof (cases p)
      case Nil
      with pq have "prefix t (c # cs)" by (simp add: prefix_def)
      then show ?thesis by simp
    next
      case (Cons d p')
      with pq have "cs = p' @ t @ q" by simp
      with Cons.IH have "includesStr cs t" by blast
      then show ?thesis by simp
    qed
  qed
qed

lemma includesStr_empty: "includesStr s []"
  by (induction s) auto

lemma includesStr_sublist: "includesStr s t \<longleftrightarrow> sublist t s"
  by (auto simp: includesStr_iff sublist_def)

section \<open>Properties of the normalizer\<close>

lemma normalize_seattle:
  "normalizeLocation (JStr ''Greater Seattle Area'') (JStr ''US'') = Inr ''Seattle''"
  by (simp add: stripUk_def stripGreaterArea_def stripCountryName_def trim_def
      toLowerCase_def lowerChar_def isWhitespace_def)

lemma requests_recordAnswer: "requests (recordAnswer loc answer st) = requests st"
  by (simp add: recordAnswer_def split: response.splits list.splits)

text \<open>
  C6. The record with location ``Greater Seattle Area'' and country ``US'' normalizes to
  ``Seattle'', and a run of the geocoding stage on a team holding just that record sends
  the provider exactly one query, ``Seattle, US'', whatever the provider answers.
\<close>

theorem seattle_query:
  "normalizeLocation (JStr ''Greater Seattle Area'') (JStr ''US'') = Inr ''Seattle'' \<and>
   searchQuery ''Seattle'' (JStr ''US'') = ''Seattle, US'' \<and>
   (\<exists>out. geocodeTeamData geocode reverse
             [m\<lparr>location := JStr ''Greater Seattle Area'', country := JStr ''US''\<rparr>] = Inr out \<and>
          o_requests out = [(''Greater Seattle Area|US'', ''Seattle, US'')])"
  by (simp del: normalizeLocation.simps
      add: normalize_seattle requests_recordAnswer geocodeTeamData_def collectLocations_def
        addMember_def mapHas_def mapModify_def allLocations_def problematic_def normal_def
        withKey_def locationKey_def searchQuery_def problematicKeywords_def toLowerCase_def
        lowerChar_def Let_def)

text \<open>
  C7. The record with location null and country null normalizes to the sentinel
  ``North Pole'' and is flagged problematic; every location that is null, missing, empty,
  the null-marker ``null'' or equal to ``world'' in any case normalizes to that same
  non-empty sentinel, whatever the country.
\<close>

theorem world_sentinel:
  "normalizeLocation JNull JNull = Inr ''North Pole'' \<and>
   isPotentiallyProblematic JNull \<and>
   ((loc = JNull \<or> loc = JUndefined \<or> loc = JStr [] \<or> loc = JStr ''null'' \<or>
     (\<exists>s. loc = JStr s \<and> toLowerCase s = ''world''))
      \<longrightarrow> normalizeLocation loc ctry = Inr ''North Pole'' \<and> ''North Pole'' \<noteq> [])"
  by auto

theorem world_sentinel_witness:
  "toLowerCase ''WoRLd'' = ''world'' \<and>
   normalizeLocation (JStr ''WoRLd'') (JStr ''US'') = Inr ''North Pole''"
  using world_sentinel [of "JStr ''WoRLd''" "JStr ''US''"]
  by (simp add: toLowerCase_def lowerChar_def)

section \<open>Properties of the record merger\<close>

lemma map_of_mapSet: "map_of (mapSet k v m) = (map_of m)(k \<mapsto> v)"
  by (induction m) (auto simp: fun_eq_iff)

lemma successfulFor_snoc:
  "successfulFor (rs @ [r]) k =
     (if r_success r \<and> r_geocoded r \<noteq> None \<and> locationKey (l_location r) (l_country r) = k
      then successfulFor rs k @ [r] else successfulFor rs k)"
  by (simp add: successfulFor_def)

lemma lookup_buildLocationMap:
  "map_of (buildLocationMap rs) k =
     (if successfulFor rs k = [] then None
      else map_option coordsOf (r_geocoded (last (successfulFor rs k))))"
proof (induction rs rule: rev_induct)
  case Nil
  then show ?case by (simp add: buildLocationMap_def successfulFor_def)
next
  case (snoc r rs)
  have step: "buildLocationMap (rs @ [r]) = addResult (buildLocationMap rs) r"
    by (simp add: buildLocationMap_def)
  show ?case
    unfolding step successfulFor_snoc using snoc.IH
    by (auto simp: addResult_def map_of_mapSet split: option.splits)
qed


lemma mapped_foldl_processMember:
  "mapped (foldl (processMember lm) st ms) =
     mapped st @ map (\<lambda>m. map_option (enrich m) (map_of lm (locationKey (location m) (country m)))) ms"
  by (induction ms arbitrary: st) (auto simp: processMember_def split: option.splits)

lemma warnings_foldl_processMember:
  "warnings (foldl (processMember lm) st ms) =
     warnings st @ map warningLine (filter (\<lambda>m. map_of lm (locationKey (location m) (country m)) = None) ms)"
  by (induction ms arbitrary: st) (auto simp: processMember_def split: option.splits)

lemma map_filter_emit:
  "List.map_filter (\<lambda>x. x) (map (\<lambda>m. map_option (f m) (g m)) ms) =
     concat (map (\<lambda>m. case g m of Some c \<Rightarrow> [f m c] | None \<Rightarrow> []) ms)"
  by (induction ms) (auto split: option.splits)

lemma team_processTeamData:
  "f_team (processTeamData now ms rs) =
     concat (map (\<lambda>m. case map_of (buildLocationMap rs) (locationKey (location m) (country m)) of
                         Some c \<Rightarrow> [enrich m c] | None \<Rightarrow> []) ms)"
  by (simp add: processTeamData_def Let_def mapped_foldl_processMember map_filter_emit)

lemma warnings_processTeamData:
  "f_warnings (processTeamData now ms rs) =
     map warningLine (filter (\<lambda>m. map_of (buildLocationMap rs) (locationKey (location m) (country m)) = None) ms)"
  by (simp add: processTeamData_def Let_def warnings_foldl_processMember)

lemma in_team:
  "e \<in> set (f_team (processTeamData now ms rs)) \<longleftrightarrow>
     (\<exists>m \<in> set ms. \<exists>c. map_of (buildLocationMap rs) (locationKey (location m) (country m)) = Some c \<and>
        e = enrich m c)"
proof -
  have "e \<in> set (case x of Some c \<Rightarrow> [g c] | None \<Rightarrow> []) \<longleftrightarrow> (\<exists>c. x = Some c \<and> e = g c)"
    for x :: "'a coords option" and g
    by (cases x) auto
  then show ?thesis
    unfolding team_processTeamData by simp
qed

lemma no_success_dropped:
  assumes "\<forall>r \<in> set rs. locationKey (l_location r) (l_country r) = k \<longrightarrow> \<not> r_success r"
  shows "(\<forall>e \<in> set (f_team (processTeamData now ms rs)).
            locationKey (e_location e) (e_country e) \<noteq> k) \<and>
         (\<forall>m \<in> set ms. locationKey (location m) (country m) = k \<longrightarrow>
            warningLine m \<in> set (f_warnings (processTeamData now ms rs)))"
proof -
  from assms have none: "successfulFor rs k = []"
    by (auto simp: successfulFor_def filter_empty_conv)
  then have look: "map_of (buildLocationMap rs) k = None"
    by (simp add: lookup_buildLocationMap)
  have team: "\<forall>e \<in> set (f_team (processTeamData now ms rs)).
            locationKey (e_location e) (e_country e) \<noteq> k"
  proof
    fix e assume "e \<in> set (f_team (processTeamData now ms rs))"
    then obtain m c where "m \<in> set ms"
      and c: "map_of (buildLocationMap rs) (locationKey (location m) (country m)) = Some c"
      and e: "e = enrich m c"
      by (auto simp: in_team)
    from c look have "locationKey (location m) (country m) \<noteq> k" by auto
    with e show "locationKey (e_location e) (e_country e) \<noteq> k" by (simp add: enrich_def)
  qed
  have warn: "\<forall>m \<in> set ms. locationKey (location m) (country m) = k \<longrightarrow>
            warningLine m \<in> set (f_warnings (processTeamData now ms rs))"
    using look by (auto simp: warnings_processTeamData)
  from team warn show ?thesis by blast
qed

lemma warningLine_shape:
  "warningLine m =
     ([CHR 0xE2, CHR 0x9A, CHR 0xA0, CHR 0xEF, CHR 0xB8, CHR 0x8F] @ ''  No coordinates found for: '') @
     fullName m @ '' ('' @ template (location m) @ '', '' @ template (country m) @ '')''"
  by (simp add: warningLine_def fullName_def)




section \<open>Properties of the location set and the forward requests\<close>


lemma keys_mapSet:
  "map fst (mapSet k v m) = (if k \<in> set (map fst m) then map fst m else map fst m @ [k])"
  by (induction m) auto









lemma normalizeLocation_error:
  "normalizeLocation loc ctry = Inl e \<Longrightarrow> template ctry \<in> set objectPrototypeMembers"
  by (cases loc) (auto simp: stripCountryName_def split: if_splits option.splits)

lemma geocodeLoop_completes:
  "\<forall>loc \<in> set locs. template (l_country loc) \<notin> set objectPrototypeMembers \<Longrightarrow>
     \<exists>st'. geocodeLoop geocode i locs st = Inr st'"
proof (induction locs arbitrary: i st)
  case Nil
  then show ?case by simp
next
  case (Cons loc locs)
  from Cons.prems have "template (l_country loc) \<notin> set objectPrototypeMembers" by simp
  then obtain n where n: "normalizeLocation (l_location loc) (l_country loc) = Inr n"
    using normalizeLocation_error [of "l_location loc" "l_country loc"]
    by (cases "normalizeLocation (l_location loc) (l_country loc)") auto
  from Cons.prems have "\<forall>loc \<in> set locs. template (l_country loc) \<notin> set objectPrototypeMembers"
    by simp
  from Cons.IH [OF this] n show ?case by (simp add: Let_def)
qed

lemma values_mapSet: "set (mapSet k v m) \<subseteq> insert (k, v) (set m)"
  by (induction m) auto

lemma countries_addMember:
  assumes "\<forall>p \<in> set lm. l_country (snd p) \<in> C" and "country m \<in> C"
  shows "\<forall>p \<in> set (addMember lm m). l_country (snd p) \<in> C"
proof -
  let ?key = "locationKey (location m) (country m)"
  let ?new = "\<lparr>l_location = location m, l_country = country m, l_count = 0, l_members = []\<rparr>"
  have set: "\<forall>p \<in> set (mapSet ?key ?new lm). l_country (snd p) \<in> C"
    using values_mapSet [of ?key ?new lm] assms by auto
  have modify: "\<forall>p \<in> set (mapModify k f lm'). l_country (snd p) \<in> C"
    if "\<forall>p \<in> set lm'. l_country (snd p) \<in> C" and "\<And>d. l_country (f d) = l_country d"
    for k f and lm' :: "(string \<times> locData) list"
    using that by (auto simp: mapModify_def)
  show ?thesis
    unfolding addMember_def Let_def
    by (rule modify) (use set assms in \<open>auto\<close>)
qed

lemma countries_foldl_addMember:
  "\<forall>p \<in> set lm. l_country (snd p) \<in> C \<Longrightarrow> country ` set ms \<subseteq> C \<Longrightarrow>
     \<forall>p \<in> set (foldl addMember lm ms). l_country (snd p) \<in> C"
proof (induction ms arbitrary: lm)
  case Nil
  then show ?case by simp
next
  case (Cons m ms)
  from Cons.prems have "\<forall>p \<in> set (addMember lm m). l_country (snd p) \<in> C"
    by (intro countries_addMember) auto
  moreover from Cons.prems have "country ` set ms \<subseteq> C" by auto
  ultimately show ?case using Cons.IH by simp
qed

lemma countries_allLocations:
  "\<forall>loc \<in> set (allLocations (collectLocations ms)). l_country loc \<in> country ` set ms"
proof -
  have "\<forall>p \<in> set (collectLocations ms). l_country (snd p) \<in> country ` set ms"
    unfolding collectLocations_def by (rule countries_foldl_addMember) auto
  then show ?thesis
    by (auto simp: allLocations_def problematic_def normal_def withKey_def)
qed



lemma geocodeTeamData_completes:
  assumes "\<forall>m \<in> set ms. template (country m) \<notin> set objectPrototypeMembers"
  shows "\<exists>out. geocodeTeamData geocode reverse ms = Inr out"
proof -
  have "\<forall>loc \<in> set (allLocations (collectLocations ms)).
          template (l_country loc) \<notin> set objectPrototypeMembers"
    using countries_allLocations [of ms] assms by auto
  from geocodeLoop_completes [OF this] obtain st where
    "geocodeLoop geocode 0 (allLocations (collectLocations ms))
       \<lparr>geocodeResults = [], successCount = 0, failCount = 0, requests = []\<rparr> = Inr st"
    by blast
  then show ?thesis by (simp add: geocodeTeamData_def Let_def)
qed


lemma entries_addMember:
  assumes "\<forall>p \<in> set lm. fst p = locationKey (l_location (snd p)) (l_country (snd p))"
  shows "\<forall>p \<in> set (addMember lm m). fst p = locationKey (l_location (snd p)) (l_country (snd p))"
proof -
  let ?key = "locationKey (location m) (country m)"
  let ?new = "\<lparr>l_location = location m, l_country = country m, l_count = 0, l_members = []\<rparr>"
  have set: "\<forall>p \<in> set (mapSet ?key ?new lm). fst p = locationKey (l_location (snd p)) (l_country (snd p))"
    using values_mapSet [of ?key ?new lm] assms by auto
  have modify: "\<forall>p \<in> set (mapModify k f lm'). fst p = locationKey (l_location (snd p)) (l_country (snd p))"
    if "\<forall>p \<in> set lm'. fst p = locationKey (l_location (snd p)) (l_country (snd p))"
      and "\<And>d. l_location (f d) = l_location d" and "\<And>d. l_country (f d) = l_country d"
    for k f and lm' :: "(string \<times> locData) list"
    using that by (auto simp: mapModify_def)
  show ?thesis
    unfolding addMember_def Let_def
    by (rule modify) (use set assms in \<open>auto\<close>)
qed

lemma entries_foldl_addMember:
  "\<forall>p \<in> set lm. fst p = locationKey (l_location (snd p)) (l_country (snd p)) \<Longrightarrow>
     \<forall>p \<in> set (foldl addMember lm ms). fst p = locationKey (l_location (snd p)) (l_country (snd p))"
proof (induction ms arbitrary: lm)
  case Nil
  then show ?case by simp
next
  case (Cons m ms)
  from Cons.prems have "\<forall>p \<in> set (addMember lm m).
      fst p = locationKey (l_location (snd p)) (l_country (snd p))"
    by (rule entries_addMember)
  from Cons.IH [OF this] show ?case by simp
qed

lemma entries_allLocations:
  "\<forall>loc \<in> set (allLocations (collectLocations ms)).
     l_key loc = locationKey (l_location loc) (l_country loc)"
proof -
  have "\<forall>p \<in> set (collectLocations ms). fst p = locationKey (l_location (snd p)) (l_country (snd p))"
    unfolding collectLocations_def by (rule entries_foldl_addMember) simp
  then show ?thesis
    by (auto simp: allLocations_def problematic_def normal_def withKey_def)
qed

lemma results_recordAnswer:
  assumes "\<forall>p \<in> set (geocodeResults st). keyedResult p"
    and "l_key loc = locationKey (l_location loc) (l_country loc)"
  shows "\<forall>p \<in> set (geocodeResults (recordAnswer loc answer st)). keyedResult p"
proof -
  have "\<forall>p \<in> set (mapSet (l_key loc) v (geocodeResults st)). keyedResult p"
    if "keyedResult (l_key loc, v)" for v
    using values_mapSet [of "l_key loc" v "geocodeResults st"] assms(1) that by auto
  moreover have "keyedResult (l_key loc, succeeded loc h)" for h :: "'a hit"
    using assms(2) by (simp add: keyedResult_def succeeded_def)
  moreover have "keyedResult (l_key loc, failed loc msg :: 'a geoResult)" for msg
    using assms(2) by (simp add: keyedResult_def failed_def)
  ultimately show ?thesis
    by (auto simp: recordAnswer_def split: response.splits list.splits)
qed

lemma distinct_mapSet: "distinct (map fst m) \<Longrightarrow> distinct (map fst (mapSet k v m))"
  by (simp add: keys_mapSet)

lemma distinct_recordAnswer:
  "distinct (map fst (geocodeResults st)) \<Longrightarrow>
     distinct (map fst (geocodeResults (recordAnswer loc answer st)))"
  by (simp add: recordAnswer_def distinct_mapSet split: response.splits list.splits)

lemma results_geocodeLoop:
  "geocodeLoop geocode i locs st = Inr st' \<Longrightarrow>
   \<forall>p \<in> set (geocodeResults st). keyedResult p \<Longrightarrow>
   distinct (map fst (geocodeResults st)) \<Longrightarrow>
   \<forall>loc \<in> set locs. l_key loc = locationKey (l_location loc) (l_country loc) \<Longrightarrow>
     (\<forall>p \<in> set (geocodeResults st'). keyedResult p) \<and> distinct (map fst (geocodeResults st'))"
proof (induction locs arbitrary: i st)
  case Nil
  then show ?case by simp
next
  case (Cons loc locs)
  from Cons.prems(1) obtain n where
    rest: "geocodeLoop geocode (i + 1) locs
             (recordAnswer loc (geocode i (searchQuery n (l_country loc)))
                (st\<lparr>requests := requests st @ [(l_key loc, searchQuery n (l_country loc))]\<rparr>)) = Inr st'"
    by (auto simp: Let_def split: sum.splits)
  let ?st = "st\<lparr>requests := requests st @ [(l_key loc, searchQuery n (l_country loc))]\<rparr>"
  have a: "\<forall>p \<in> set (geocodeResults (recordAnswer loc (geocode i (searchQuery n (l_country loc))) ?st)).
             keyedResult p"
    using Cons.prems(2,4) by (intro results_recordAnswer) auto
  have b: "distinct (map fst (geocodeResults (recordAnswer loc (geocode i (searchQuery n (l_country loc))) ?st)))"
    using Cons.prems(3) by (intro distinct_recordAnswer) auto
  from Cons.prems(4) have c: "\<forall>loc \<in> set locs. l_key loc = locationKey (l_location loc) (l_country loc)"
    by simp
  from Cons.IH [OF rest a b c] show ?case .
qed

lemma allResults_geocodeTeamData:
  assumes "geocodeTeamData geocode reverse ms = Inr out"
  shows "distinct (map (\<lambda>r. locationKey (l_location r) (l_country r)) (o_allResults out))"
proof -
  from assms obtain st where
    loop: "geocodeLoop geocode 0 (allLocations (collectLocations ms))
             \<lparr>geocodeResults = [], successCount = 0, failCount = 0, requests = []\<rparr> = Inr st"
    and out: "o_allResults out = map snd (geocodeResults st)"
    by (auto simp: geocodeTeamData_def Let_def split: sum.splits)
  from results_geocodeLoop [OF loop] entries_allLocations [of ms]
  have k: "\<forall>p \<in> set (geocodeResults st). keyedResult p"
    and d: "distinct (map fst (geocodeResults st))" by auto
  have eq: "map (\<lambda>r. locationKey (l_location r) (l_country r)) (map snd (geocodeResults st)) =
               map fst (geocodeResults st)"
    unfolding map_map by (intro map_cong refl) (use k in \<open>auto simp: keyedResult_def\<close>)
  show ?thesis unfolding out eq by (rule d)
qed

lemma distinct_map_same:
  "distinct (map f xs) \<Longrightarrow> x \<in> set xs \<Longrightarrow> y \<in> set xs \<Longrightarrow> f x = f y \<Longrightarrow> x = y"
  by (meson distinct_map inj_onD)




text \<open>
  C2. When every GeocodeResult listed for a key is marked failed (success flag false), the
  final dataset holds no member with that key and the warning output holds the line of
  every record carrying it. For the results of a run of the geocoding stage this reads
  on pairs: no member of the dataset merged from them has the location and country of a
  result marked failed, and every record with that location and country is reported.
  The warning line ends with the member's name followed by the raw location and country
  in parentheses.
\<close>

theorem failed_key_dropped:
  "((\<forall>r \<in> set rs. locationKey (l_location r) (l_country r) = k \<longrightarrow> \<not> r_success r) \<longrightarrow>
      (\<forall>e \<in> set (f_team (processTeamData now ms rs)).
         locationKey (e_location e) (e_country e) \<noteq> k) \<and>
      (\<forall>m \<in> set ms. locationKey (location m) (country m) = k \<longrightarrow>
         warningLine m \<in> set (f_warnings (processTeamData now ms rs)))) \<and>
   (\<forall>out r. geocodeTeamData (geocode :: nat \<Rightarrow> string \<Rightarrow> 'n response) reverse ms = Inr out \<and>
        r \<in> set (o_allResults out) \<and> \<not> r_success r \<longrightarrow>
      (\<forall>e \<in> set (f_team (processTeamData now ms (o_allResults out))).
         \<not> (e_location e = l_location r \<and> e_country e = l_country r)) \<and>
      (\<forall>m \<in> set ms. location m = l_location r \<and> country m = l_country r \<longrightarrow>
         warningLine m \<in> set (f_warnings (processTeamData now ms (o_allResults out))))) \<and>
   (\<exists>pre. \<forall>m. warningLine m =
      pre @ fullName m @ '' ('' @ template (location m) @ '', '' @ template (country m) @ '')'')"
proof (intro conjI allI impI)
  assume "\<forall>r \<in> set rs. locationKey (l_location r) (l_country r) = k \<longrightarrow> \<not> r_success r"
  from no_success_dropped [OF this]
  show "\<forall>e \<in> set (f_team (processTeamData now ms rs)).
         locationKey (e_location e) (e_country e) \<noteq> k"
    and "\<forall>m \<in> set ms. locationKey (location m) (country m) = k \<longrightarrow>
         warningLine m \<in> set (f_warnings (processTeamData now ms rs))"
    by blast+
next
  fix out :: "'n geocodeOutput" and r
  assume a: "geocodeTeamData geocode reverse ms = Inr out \<and> r \<in> set (o_allResults out) \<and> \<not> r_success r"
  let ?k = "locationKey (l_location r) (l_country r)"
  from a have d: "distinct (map (\<lambda>r. locationKey (l_location r) (l_country r)) (o_allResults out))"
    by (intro allResults_geocodeTeamData [of geocode reverse ms]) simp
  have "\<forall>r' \<in> set (o_allResults out).
          locationKey (l_location r') (l_country r') = ?k \<longrightarrow> \<not> r_success r'"
  proof (intro ballI impI)
    fix r' assume "r' \<in> set (o_allResults out)"
      and "locationKey (l_location r') (l_country r') = ?k"
    with d a have "r' = r" by (intro distinct_map_same [OF d]) auto
    with a show "\<not> r_success r'" by simp
  qed
  from no_success_dropped [OF this, of now ms]
  show "\<forall>e \<in> set (f_team (processTeamData now ms (o_allResults out))).
         \<not> (e_location e = l_location r \<and> e_country e = l_country r)"
    and "\<forall>m \<in> set ms. location m = l_location r \<and> country m = l_country r \<longrightarrow>
         warningLine m \<in> set (f_warnings (processTeamData now ms (o_allResults out)))"
    by auto
next
  show "\<exists>pre. \<forall>m. warningLine m =
      pre @ fullName m @ '' ('' @ template (location m) @ '', '' @ template (country m) @ '')''"
    using warningLine_shape by blast
qed

theorem failed_key_dropped_witness:
  "locationKey (l_location (sampleResult (JStr ''Paris'') (JStr ''FR'') True))
     (l_country (sampleResult (JStr ''Paris'') (JStr ''FR'') True)) \<noteq> ''Atlantis|XX'' \<and>
   \<not> r_success (sampleResult (JStr ''Atlantis'') (JStr ''XX'') False) \<and>
   locationKey (location (sampleMember 8 ''Bob'' (JStr ''Atlantis'') (JStr ''XX'')))
     (country (sampleMember 8 ''Bob'' (JStr ''Atlantis'') (JStr ''XX''))) = ''Atlantis|XX'' \<and>
   warningLine (sampleMember 8 ''Bob'' (JStr ''Atlantis'') (JStr ''XX''))
     \<in> set (f_warnings (processTeamData ''2024''
                [sampleMember 7 ''Ada'' (JStr ''Paris'') (JStr ''FR''),
                 sampleMember 8 ''Bob'' (JStr ''Atlantis'') (JStr ''XX'')]
                [sampleResult (JStr ''Paris'') (JStr ''FR'') True,
                 sampleResult (JStr ''Atlantis'') (JStr ''XX'') False])) \<and>
   (\<exists>out r. geocodeTeamData sampleFails sampleReverse
              [sampleMember 7 ''Ada'' (JStr ''Paris'') (JStr ''FR''),
               sampleMember 8 ''Bob'' (JStr ''Atlantis'') (JStr ''XX'')] = Inr out \<and>
      r \<in> set (o_allResults out) \<and> \<not> r_success r \<and>
      location (sampleMember 8 ''Bob'' (JStr ''Atlantis'') (JStr ''XX'')) = l_location r \<and>
      country (sampleMember 8 ''Bob'' (JStr ''Atlantis'') (JStr ''XX'')) = l_country r \<and>
      warningLine (sampleMember 8 ''Bob'' (JStr ''Atlantis'') (JStr ''XX''))
        \<in> set (f_warnings (processTeamData ''2024''
                  [sampleMember 7 ''Ada'' (JStr ''Paris'') (JStr ''FR''),
                   sampleMember 8 ''Bob'' (JStr ''Atlantis'') (JStr ''XX'')]
                  (o_allResults out))))"
proof -
  let ?ms = "[sampleMember 7 ''Ada'' (JStr ''Paris'') (JStr ''FR''),
              sampleMember 8 ''Bob'' (JStr ''Atlantis'') (JStr ''XX'')]"
  let ?rs = "[sampleResult (JStr ''Paris'') (JStr ''FR'') True,
              sampleResult (JStr ''Atlantis'') (JStr ''XX'') False]"
  let ?bob = "sampleMember 8 ''Bob'' (JStr ''Atlantis'') (JStr ''XX'')"
  note t = failed_key_dropped [of ?rs "''Atlantis|XX''" "''2024''" ?ms sampleFails sampleReverse]
  have h: "\<forall>r \<in> set ?rs. locationKey (l_location r) (l_country r) = ''Atlantis|XX'' \<longrightarrow> \<not> r_success r"
    by (simp add: sampleResult_def locationKey_def)
  have k: "locationKey (location ?bob) (country ?bob) = ''Atlantis|XX''"
    by (simp add: sampleMember_def locationKey_def)
  from t h k have w1: "warningLine ?bob \<in> set (f_warnings (processTeamData ''2024'' ?ms ?rs))"
    by simp
  obtain out where out: "geocodeTeamData sampleFails sampleReverse ?ms = Inr out"
    using geocodeTeamData_completes [of ?ms sampleFails sampleReverse]
    by (auto simp: sampleMember_def objectPrototypeMembers_def)
  have r: "failed \<lparr>l_location = JStr ''Atlantis'', l_country = JStr ''XX'', l_count = 1,
                     l_members = [''Bob Doe''], l_key = ''Atlantis|XX''\<rparr> ''No results found''
             \<in> set (o_allResults out)"
    using out
    by (auto simp: geocodeTeamData_def collectLocations_def addMember_def mapHas_def mapModify_def
        Let_def sampleMember_def locationKey_def allLocations_def problematic_def normal_def
        withKey_def problematicKeywords_def toLowerCase_def lowerChar_def trim_def isWhitespace_def
        stripUk_def stripGreaterArea_def stripCountryName_def searchQuery_def sampleFails_def
        recordAnswer_def fullName_def)
  let ?r = "failed \<lparr>l_location = JStr ''Atlantis'', l_country = JStr ''XX'', l_count = 1,
                     l_members = [''Bob Doe''], l_key = ''Atlantis|XX''\<rparr> ''No results found'' :: int geoResult"
  have f: "\<not> r_success ?r" "location ?bob = l_location ?r" "country ?bob = l_country ?r"
    by (simp_all add: failed_def sampleMember_def)
  from t out r f have w2: "warningLine ?bob \<in> set (f_warnings (processTeamData ''2024'' ?ms (o_allResults out)))"
    by (metis list.set_intros(1,2))
  have h': "locationKey (l_location (sampleResult (JStr ''Paris'') (JStr ''FR'') True))
     (l_country (sampleResult (JStr ''Paris'') (JStr ''FR'') True)) \<noteq> ''Atlantis|XX''"
    "\<not> r_success (sampleResult (JStr ''Atlantis'') (JStr ''XX'') False)"
    by (simp_all add: sampleResult_def locationKey_def)
  from h' k w1 out r f w2 show ?thesis by blast
qed

section \<open>Properties of the verification pass\<close>

lemma mismatches_verifyLoop:
  "mismatches (verifyLoop reverse i locs st) =
     mismatches st @
     concat (map (\<lambda>(j, loc). case r_geocoded loc of
                                None \<Rightarrow> []
                              | Some g \<Rightarrow> checkReverse loc g (reverse j (g_lat g) (g_lng g)))
               (enumerate i locs))"
  by (induction locs arbitrary: i st) (auto split: option.splits)






lemma outputs_geocodeTeamData:
  assumes "geocodeTeamData geocode reverse ms = Inr out"
  shows "o_verificationMismatches out =
           mismatches (verifyLoop reverse 0 (take 10 (filter r_success (o_allResults out)))
                         \<lparr>mismatches = [], reverseRequests = []\<rparr>)"
    and "o_reverseRequests out =
           reverseRequests (verifyLoop reverse 0 (take 10 (filter r_success (o_allResults out)))
                         \<lparr>mismatches = [], reverseRequests = []\<rparr>)"
  using assms
  by (auto simp: geocodeTeamData_def Let_def verificationsNeeded_def split: sum.splits)


lemma empty_city_entry:
  "h_city place = JNull \<or> h_city place = JUndefined \<or> h_city place = JStr [] \<Longrightarrow>
     reverseMatches originalLower reverseLower (h_city place) \<and>
     checkReverse loc g (Results (place # others)) = []"
  by (auto simp: reverseMatches_def checkReverse_def includesStr_empty toLowerCase_def
      split: jsval.splits)



text \<open>
  C10. When the city of a reverse result is absent or empty, the containment check
  succeeds whatever the two strings are, because every string contains the empty string:
  the entry leaves no mismatch record, however unrelated the reverse address is. A
  provider that never names a city therefore yields no mismatch at all.
\<close>

theorem empty_city_always_matches:
  "(h_city place = JNull \<or> h_city place = JUndefined \<or> h_city place = JStr [] \<longrightarrow>
      reverseMatches originalLower reverseLower (h_city place) \<and>
      checkReverse loc g (Results (place # others)) = []) \<and>
   ((\<forall>i lat lng p ps. reverse i lat lng = Results (p # ps) \<longrightarrow>
        h_city p = JNull \<or> h_city p = JUndefined \<or> h_city p = JStr []) \<longrightarrow>
      (\<forall>out. geocodeTeamData geocode reverse ms = Inr out \<longrightarrow> o_verificationMismatches out = []))"
proof (intro conjI impI allI)
  assume c: "h_city place = JNull \<or> h_city place = JUndefined \<or> h_city place = JStr []"
  from empty_city_entry [OF c]
  show "reverseMatches originalLower reverseLower (h_city place)"
    and "checkReverse loc g (Results (place # others)) = []" by auto
next
  fix out :: "'b geocodeOutput"
  assume all: "\<forall>i lat lng p ps. reverse i lat lng = Results (p # ps) \<longrightarrow>
        h_city p = JNull \<or> h_city p = JUndefined \<or> h_city p = JStr []"
    and run: "geocodeTeamData geocode reverse ms = Inr out"
  have none: "checkReverse l g (reverse j a b) = []" for l g j a b
  proof (cases "reverse j a b")
    case (Throws msg)
    then show ?thesis by (simp add: checkReverse_def)
  next
    case (Results ps)
    show ?thesis
    proof (cases ps)
      case Nil
      with Results show ?thesis by (simp add: checkReverse_def)
    next
      case (Cons p ps')
      with Results all have "h_city p = JNull \<or> h_city p = JUndefined \<or> h_city p = JStr []"
        by blast
      from empty_city_entry [OF this] Results Cons show ?thesis by simp
    qed
  qed
  show "o_verificationMismatches out = []"
    by (simp add: outputs_geocodeTeamData(1) [OF run] mismatches_verifyLoop none
        split: option.splits prod.splits)
qed

theorem empty_city_always_matches_witness:
  "h_city (sampleElsewhere JUndefined) = JUndefined \<and>
   reverseMatches ''paris'' ''tokyo, japan'' (h_city (sampleElsewhere JUndefined)) \<and>
   checkReverse (sampleResult (JStr ''Paris'') (JStr ''FR'') True) sampleGeocoded
     (Results [sampleElsewhere JUndefined]) = [] \<and>
   (\<exists>out. geocodeTeamData sampleGeocode sampleReverseNoCity
             [sampleMember 7 ''Ada'' (JStr ''Paris'') (JStr ''FR'')] = Inr out \<and>
          o_reverseRequests out = [(48, 2)] \<and>
          o_verificationMismatches out = [])"
proof -
  let ?ms = "[sampleMember 7 ''Ada'' (JStr ''Paris'') (JStr ''FR'')]"
  note t = empty_city_always_matches [of "sampleElsewhere JUndefined" "''paris''" "''tokyo, japan''"
      "sampleResult (JStr ''Paris'') (JStr ''FR'') True" sampleGeocoded "[]"
      sampleReverseNoCity sampleGeocode ?ms]
  have c: "h_city (sampleElsewhere JUndefined) = JUndefined"
    by (simp add: sampleElsewhere_def)
  obtain out where out: "geocodeTeamData sampleGeocode sampleReverseNoCity ?ms = Inr out"
    using geocodeTeamData_completes [of ?ms sampleGeocode sampleReverseNoCity]
    by (auto simp: sampleMember_def objectPrototypeMembers_def)
  have req: "o_reverseRequests out = [(48, 2)]"
    using out
    by (auto simp: geocodeTeamData_def collectLocations_def addMember_def mapHas_def mapModify_def
        Let_def sampleMember_def locationKey_def allLocations_def problematic_def normal_def
        withKey_def problematicKeywords_def toLowerCase_def lowerChar_def trim_def isWhitespace_def
        stripUk_def stripGreaterArea_def stripCountryName_def searchQuery_def sampleGeocode_def
        recordAnswer_def fullName_def verificationsNeeded_def succeeded_def sampleHit_def)
  have "\<forall>i lat lng p ps. sampleReverseNoCity i lat lng = Results (p # ps) \<longrightarrow>
          h_city p = JNull \<or> h_city p = JUndefined \<or> h_city p = JStr []"
    by (auto simp: sampleReverseNoCity_def sampleElsewhere_def)
  with t out have "o_verificationMismatches out = []" by blast
  with t c out req show ?thesis by auto
qed

section \<open>Properties of the problematic classifier\<close>

text \<open>
  C4, as the code has it. The classifier is true exactly on a location that is null,
  missing, empty or the null-marker ``null'', or whose lower-cased text contains one of
  the keywords world, earth, remote, nomad, digital nomad, everywhere, nowhere, n/a, tbd,
  various; on every other location it is false.
\<close>

theorem classifier_iff:
  "isPotentiallyProblematic loc \<longleftrightarrow>
     loc = JNull \<or> loc = JUndefined \<or> loc = JStr [] \<or> loc = JStr ''null'' \<or>
     (\<exists>s. loc = JStr s \<and>
        (\<exists>keyword \<in> set [''world'', ''earth'', ''remote'', ''nomad'', ''digital nomad'',
                          ''everywhere'', ''nowhere'', ''n/a'', ''tbd'', ''various''].
           sublist keyword (toLowerCase s)))"
  by (cases loc) (auto simp: problematicKeywords_def includesStr_sublist)

theorem classifier_iff_witness:
  "isPotentiallyProblematic (JStr ''Remote (EU)'') \<and> isPotentiallyProblematic (JStr ''TBD'') \<and>
   \<not> isPotentiallyProblematic (JStr ''Berlin'')"
  using classifier_iff [of "JStr ''Remote (EU)''"] classifier_iff [of "JStr ''TBD''"]
    classifier_iff [of "JStr ''Berlin''"]
  by (simp add: includesStr_sublist [symmetric] toLowerCase_def lowerChar_def)

text \<open>
  The keywords for not-applicable and to-be-determined are the abbreviations ``n/a'' and
  ``tbd'': a location spelling either one out is not flagged, and the abbreviation is
  flagged where the spelled-out placeholder does not occur.
\<close>

theorem classifier_placeholders_differ:
  "claimedProblematic (JStr ''not-applicable'') \<and>
   \<not> isPotentiallyProblematic (JStr ''not-applicable'') \<and>
   isPotentiallyProblematic (JStr ''N/A'') \<and>
   \<not> claimedProblematic (JStr ''N/A'')"
  by (simp add: claimedPlaceholders_def problematicKeywords_def includesStr_sublist [symmetric]
      toLowerCase_def lowerChar_def)

section \<open>Properties of the country-suffix rule\<close>











section \<open>Properties of the static server\<close>



end
